theory Spec2Isabelle
  imports Main
begin

section \<open>Python values, exceptions and results\<close>

text \<open>
  The embedding follows \<^verbatim>\<open>src/easyauth/server.py\<close> (class \<^verbatim>\<open>EasyAuthServer\<close>).
  A call that may raise returns a value of \<open>exn + 'a\<close>: \<open>Inl e\<close> is the raised
  exception, \<open>Inr v\<close> the returned value. A call that also changes the database, the
  clock or the file system returns the new state beside the result, so the state at the
  moment of a raise stays visible. Log calls (\<^verbatim>\<open>self.log...\<close>) have no effect
  on results or stores and are left out. All exceptions below derive from Python's
  \<^verbatim>\<open>Exception\<close>.
\<close>

datatype detail =
    Text string
  | PermissionsRequired "(string \<times> string list) list"

datatype exn =
    HTTPException nat detail
  | ValueError string
  | KeyError string
  | IndexError
  | AttributeError
  | AssertionError string
  | FileNotFoundError
  | PermissionError
  | GoogleOauthNotEnabledOrConfigured
  | GoogleOauthHeaderMalformed
  | OtherException string

text \<open>\<^verbatim>\<open>except ValueError\<close> catches exactly the \<open>ValueError\<close> family.\<close>

fun is_ValueError :: "exn \<Rightarrow> bool" where
  "is_ValueError (ValueError m) = True"
| "is_ValueError e = False"

section \<open>Data model\<close>

text \<open>
  Modelled from the spec: the tables of \<^verbatim>\<open>easyauth.models\<close> (Users, Tokens,
  OauthConfig and the Groups, Roles, Actions a user reaches), which are imported by
  \<^verbatim>\<open>server.py\<close> but not part of the source at hand. Each table is the list of its
  rows; Users is keyed by \<open>username\<close>, Tokens by \<open>token_id\<close>. Timestamps are integers
  (seconds on one time axis) where the source stores ISO-8601 strings of
  \<^verbatim>\<open>datetime\<close> values.
\<close>

datatype action_row = Actions (action: string) (details: string)

datatype role_row = Roles (role: string) (actions: "action_row list")

datatype group_row = Groups (group_name: string) (roles: "role_row list")

type_synonym permissions = "string \<rightharpoonup> string list"

record user_row =
  username :: string
  password :: string
  account_type :: string
  email :: string
  groups :: "group_row list"

record token_row =
  token_id :: string
  token_username :: string
  issued :: int
  expiration :: int
  token :: permissions

record oauth_row =
  provider :: string
  client_id :: string
  enabled :: bool
  default_groups :: "group_row list"

text \<open>
  The state the server works on: the three tables, the process environment
  (\<^verbatim>\<open>os.environ\<close>) and the system clock. The clock is read by
  \<^verbatim>\<open>datetime.datetime.now()\<close>; the \<open>k\<close>-th reading of a run is \<open>clock w k\<close>, and
  \<open>ticks w\<close> counts the readings made so far.
\<close>

record world =
  Users :: "user_row list"
  Tokens :: "token_row list"
  OauthConfig :: "oauth_row list"
  environ :: "string \<rightharpoonup> string"
  clock :: "nat \<Rightarrow> int"
  ticks :: nat

definition now :: "world \<Rightarrow> int \<times> world" where
  "now w = (clock w (ticks w), w\<lparr>ticks := Suc (ticks w)\<rparr>)"

subsection \<open>Table operations\<close>

text \<open>
  Modelled from the spec: the store interface (\<^verbatim>\<open>get\<close>, \<^verbatim>\<open>filter\<close>,
  \<^verbatim>\<open>create\<close>, \<^verbatim>\<open>delete\<close>, \<^verbatim>\<open>all\<close>, \<^verbatim>\<open>count\<close>) that the model
  classes of \<^verbatim>\<open>easyauth.models\<close> offer. \<^verbatim>\<open>get\<close> returns the row with the given
  key or \<^verbatim>\<open>None\<close>; \<^verbatim>\<open>row.delete()\<close> deletes by the row's key.
\<close>

definition Tokens_get :: "token_row list \<Rightarrow> string \<Rightarrow> token_row option" where
  "Tokens_get rows tid = find (\<lambda>r. token_id r = tid) rows"

definition Tokens_delete :: "token_row list \<Rightarrow> token_row \<Rightarrow> token_row list" where
  "Tokens_delete rows t = filter (\<lambda>r. token_id r \<noteq> token_id t) rows"

definition Tokens_create :: "token_row list \<Rightarrow> token_row \<Rightarrow> token_row list" where
  "Tokens_create rows t = rows @ [t]"

definition Users_get :: "user_row list \<Rightarrow> string \<Rightarrow> user_row option" where
  "Users_get rows name = find (\<lambda>u. username u = name) rows"

definition Users_filter_email :: "user_row list \<Rightarrow> string \<Rightarrow> user_row list" where
  "Users_filter_email rows addr = filter (\<lambda>u. email u = addr) rows"

definition OauthConfig_filter_provider :: "oauth_row list \<Rightarrow> string \<Rightarrow> oauth_row list" where
  "OauthConfig_filter_provider rows p = filter (\<lambda>c. provider c = p) rows"

section \<open>Token tracking: is_valid_token, revoke_token\<close>

text \<open>
  \<^verbatim>\<open>
  async def is_valid_token(self, token_id: str) -> bool:
      return await Tokens.get(token_id=token_id) is not None

  async def revoke_token(self, token_id: str):
      token = await Tokens.get(token_id=token_id)
      if token:
          await token.delete()
      self.log.warning(f"Revoking token {token}")
  \<close>
\<close>

definition is_valid_token :: "world \<Rightarrow> string \<Rightarrow> bool" where
  "is_valid_token w tid = (Tokens_get (Tokens w) tid \<noteq> None)"

definition revoke_token :: "world \<Rightarrow> string \<Rightarrow> (exn + unit) \<times> world" where
  "revoke_token w tid =
     (case Tokens_get (Tokens w) tid of
        None \<Rightarrow> (Inr (), w)
      | Some t \<Rightarrow> (Inr (), w\<lparr>Tokens := Tokens_delete (Tokens w) t\<rparr>))"

section \<open>Expiry sweep: token_cleanup\<close>

text \<open>
  \<^verbatim>\<open>
  async def token_cleanup(self):
      all_tokens = await Tokens.all()
      [
          await token.delete()
          for token in all_tokens
          if datetime.datetime.now()
          > datetime.datetime.fromisoformat(token.expiration)
      ]
      token_count = await Tokens.count()
      removed_count = len(all_tokens) - token_count
      self.log.warning(f"token_cleanup cleared {removed_count} expired tokens")
      return f"finished cleaning {removed_count} expired tokens"
  \<close>
  The comprehension reads the clock once for every row it examines.
\<close>

fun cleanup_loop :: "token_row list \<Rightarrow> world \<Rightarrow> world" where
  "cleanup_loop [] w = w"
| "cleanup_loop (t # ts) w =
     (let (n, w1) = now w
      in if n > expiration t
         then cleanup_loop ts (w1\<lparr>Tokens := Tokens_delete (Tokens w1) t\<rparr>)
         else cleanup_loop ts w1)"

text \<open>
  The ids of the rows the loop finds expired, each row against the reading taken when
  it is examined: \<open>c\<close> is the clock and \<open>n\<close> the number of its next reading.
\<close>

fun expired_ids :: "token_row list \<Rightarrow> (nat \<Rightarrow> int) \<Rightarrow> nat \<Rightarrow> string list" where
  "expired_ids [] c n = []"
| "expired_ids (t # ts) c n =
     (if c n > expiration t then [token_id t] else []) @ expired_ids ts c (Suc n)"

text \<open>
  The rows of a sweep, each with the time observed for it: the reading the comprehension
  takes when it examines that row.
\<close>

fun observed :: "token_row list \<Rightarrow> (nat \<Rightarrow> int) \<Rightarrow> nat \<Rightarrow> (token_row \<times> int) list" where
  "observed [] c n = []"
| "observed (t # ts) c n = (t, c n) # observed ts c (Suc n)"

text \<open>Python's \<^verbatim>\<open>str\<close> of an integer, as the f-string formats it.\<close>

definition digit_char :: "nat \<Rightarrow> char" where
  "digit_char d = ''0123456789'' ! d"

function str_nat :: "nat \<Rightarrow> string" where
  "str_nat n = (if n < 10 then [digit_char n] else str_nat (n div 10) @ [digit_char (n mod 10)])"
  by pat_completeness auto
termination
  by (relation "measure id") auto

declare str_nat.simps [simp del]

definition str_int :: "int \<Rightarrow> string" where
  "str_int i = (if i < 0 then CHR ''-'' # str_nat (nat (- i)) else str_nat (nat i))"

definition token_cleanup :: "world \<Rightarrow> (exn + string) \<times> world" where
  "token_cleanup w =
     (let all_tokens = Tokens w;
          w1 = cleanup_loop all_tokens w;
          token_count = int (length (Tokens w1));
          removed_count = int (length all_tokens) - token_count
      in (Inr (''finished cleaning '' @ str_int removed_count @ '' expired tokens''), w1))"

section \<open>Token issuance: issue_token\<close>

text \<open>
  The signing key (\<^verbatim>\<open>jwcrypto.jwk.JWK\<close>) and the signed token. A signed token is
  modelled by what it carries: the claims handed to the signer, the \<open>exp\<close> claim the
  signer adds, and the key it was signed with.
\<close>

datatype jwk = JWK (kid: string) (kty: string) (key_size: nat) (material: string)

record payload =
  iss :: string
  sub :: string
  aud :: string
  payload_token_id :: string
  payload_permissions :: permissions

record jwt =
  jwt_claims :: payload
  jwt_exp :: int
  jwt_key :: jwk

text \<open>\<^verbatim>\<open>datetime.timedelta(minutes=minutes, hours=hours, days=days)\<close>, in seconds.\<close>

definition timedelta :: "int \<Rightarrow> int \<Rightarrow> int \<Rightarrow> int" where
  "timedelta minutes hours days = minutes * 60 + hours * 3600 + days * 86400"

text \<open>
  \<^verbatim>\<open>python_jwt.generate_jwt(claims, priv_key, algorithm, lifetime)\<close> is a library
  call. It receives a lifetime, not an expiration: the library reads the clock itself and
  sets \<open>exp\<close> to that reading plus the lifetime.
\<close>

definition generate_jwt :: "payload \<Rightarrow> jwk \<Rightarrow> int \<Rightarrow> world \<Rightarrow> jwt \<times> world" where
  "generate_jwt claims key lifetime w =
     (let (n, w1) = now w
      in (\<lparr>jwt_claims = claims, jwt_exp = n + lifetime, jwt_key = key\<rparr>, w1))"

definition environ_get :: "world \<Rightarrow> string \<Rightarrow> exn + string" where
  "environ_get w k = (case environ w k of None \<Rightarrow> Inl (KeyError k) | Some v \<Rightarrow> Inr v)"

text \<open>
  \<^verbatim>\<open>
  async def issue_token(self, permissions, minutes=60, hours=0, days=0):
      token_id = str(uuid.uuid4())
      payload = {
          "iss": os.environ["ISSUER"],
          "sub": os.environ["SUBJECT"],
          "aud": os.environ["AUDIENCE"],
          "token_id": token_id,
          "permissions": permissions,
      }
      expiration = datetime.datetime.now() + datetime.timedelta(
          minutes=minutes, hours=hours, days=days
      )
      await Tokens.create(
          token_id=token_id,
          username=permissions["users"][0],
          issued=datetime.datetime.now().isoformat(),
          expiration=expiration.isoformat(),
          token=permissions,
      )
      token = jwt.generate_jwt(
          payload, self._privkey, "RS256",
          datetime.timedelta(minutes=minutes, hours=hours, days=days),
      )
      return token
  \<close>
  \<open>privkey\<close> is \<^verbatim>\<open>self._privkey\<close> and \<open>uuid\<close> the value \<^verbatim>\<open>uuid.uuid4()\<close> draws.
  The arguments of \<^verbatim>\<open>Tokens.create\<close> are evaluated left to right before the call.
\<close>

definition issue_token ::
  "jwk \<Rightarrow> string \<Rightarrow> world \<Rightarrow> permissions \<Rightarrow> int \<Rightarrow> int \<Rightarrow> int \<Rightarrow> (exn + jwt) \<times> world" where
  "issue_token privkey uuid w perms minutes hours days =
     (let tid = uuid
      in case environ_get w ''ISSUER'' of
           Inl e \<Rightarrow> (Inl e, w)
         | Inr issuer \<Rightarrow>
            (case environ_get w ''SUBJECT'' of
               Inl e \<Rightarrow> (Inl e, w)
             | Inr subject \<Rightarrow>
                (case environ_get w ''AUDIENCE'' of
                   Inl e \<Rightarrow> (Inl e, w)
                 | Inr audience \<Rightarrow>
                    (let claims = \<lparr>iss = issuer, sub = subject, aud = audience,
                                   payload_token_id = tid, payload_permissions = perms\<rparr>;
                         (n1, w1) = now w;
                         expires = n1 + timedelta minutes hours days
                     in case perms ''users'' of
                          None \<Rightarrow> (Inl (KeyError ''users''), w1)
                        | Some [] \<Rightarrow> (Inl IndexError, w1)
                        | Some (user # rest) \<Rightarrow>
                           (let (n2, w2) = now w1;
                                w3 = w2\<lparr>Tokens := Tokens_create (Tokens w2)
                                       \<lparr>token_id = tid, token_username = user, issued = n2,
                                        expiration = expires, token = perms\<rparr>\<rparr>;
                                (signed, w4) =
                                  generate_jwt claims privkey (timedelta minutes hours days) w3
                            in (Inr signed, w4))))))"

section \<open>Permission resolution: get_user_permissions\<close>

text \<open>
  \<^verbatim>\<open>
  async def get_user_permissions(self, user: Union[Users, Services]) -> dict:
      permissions = {}
      for group in user.groups:
          for role in group.roles:
              for action in role.actions:
                  if "actions" not in permissions:
                      permissions["actions"] = []
                  if action not in permissions["actions"]:
                      permissions["actions"].append(action.action)
              if "roles" not in permissions:
                  permissions["roles"] = []
              if role not in permissions["roles"]:
                  permissions["roles"].append(role.role)
          if "groups" not in permissions:
              permissions["groups"] = []
          if group not in permissions["groups"]:
              permissions["groups"].append(group.group_name)
      permissions["users"] = [user.username]
      return permissions
  \<close>
  The lists under \<^verbatim>\<open>"actions"\<close>, \<^verbatim>\<open>"roles"\<close> and \<^verbatim>\<open>"groups"\<close> hold names
  (strings), while the membership tests ask for the model object itself. \<open>pyobj\<close> is the
  type of the Python values that meet in these tests; \<^verbatim>\<open>in\<close> compares with
  \<^verbatim>\<open>==\<close>, and a model object is never equal to a string.
\<close>

datatype pyobj =
    PyStr string
  | PyActions action_row
  | PyRoles role_row
  | PyGroups group_row

definition py_in :: "pyobj \<Rightarrow> pyobj list \<Rightarrow> bool" where
  "py_in x xs = (x \<in> set xs)"

text \<open>\<^verbatim>\<open>if k not in permissions: permissions[k] = []\<close>\<close>

definition init_list :: "string \<Rightarrow> permissions \<Rightarrow> permissions" where
  "init_list k p = (if p k = None then p(k \<mapsto> []) else p)"

text \<open>
  \<^verbatim>\<open>if obj not in permissions[k]: permissions[k].append(name)\<close>; the key is present
  wherever the source runs this.
\<close>

definition append_if_absent :: "string \<Rightarrow> pyobj \<Rightarrow> string \<Rightarrow> permissions \<Rightarrow> permissions" where
  "append_if_absent k obj name p =
     (case p k of
        None \<Rightarrow> p
      | Some xs \<Rightarrow> if \<not> py_in obj (map PyStr xs) then p(k \<mapsto> xs @ [name]) else p)"

fun actions_loop :: "action_row list \<Rightarrow> permissions \<Rightarrow> permissions" where
  "actions_loop [] p = p"
| "actions_loop (a # rest) p =
     actions_loop rest (append_if_absent ''actions'' (PyActions a) (action a) (init_list ''actions'' p))"

fun roles_loop :: "role_row list \<Rightarrow> permissions \<Rightarrow> permissions" where
  "roles_loop [] p = p"
| "roles_loop (r # rest) p =
     roles_loop rest
       (append_if_absent ''roles'' (PyRoles r) (role r)
          (init_list ''roles'' (actions_loop (actions r) p)))"

fun groups_loop :: "group_row list \<Rightarrow> permissions \<Rightarrow> permissions" where
  "groups_loop [] p = p"
| "groups_loop (g # rest) p =
     groups_loop rest
       (append_if_absent ''groups'' (PyGroups g) (group_name g)
          (init_list ''groups'' (roles_loop (roles g) p)))"

definition get_user_permissions :: "user_row \<Rightarrow> permissions" where
  "get_user_permissions user = (groups_loop (groups user) Map.empty)(''users'' \<mapsto> [username user])"

section \<open>The permission check of a protected endpoint\<close>

text \<open>
  \<^verbatim>\<open>
  def parse_permissions(self, users, groups, roles, actions, default_permissions=None):
      permissions = {}
      if users:
          permissions["users"] = users
      if groups:
          permissions["groups"] = groups
      if roles:
          permissions["roles"] = roles
      if actions:
          permissions["actions"] = actions
      if not permissions:
          permissions = (
              self.DEFAULT_PERMISSION
              if not default_permissions
              else default_permissions
          )
      return permissions
  \<close>
  A requirement is the list of the dict's items, in insertion order. An argument is
  \<^verbatim>\<open>None\<close> or a list; \<^verbatim>\<open>None\<close> and the empty list are false.
\<close>

type_synonym requirement = "(string \<times> string list) list"

fun set_if :: "string \<Rightarrow> string list option \<Rightarrow> requirement \<Rightarrow> requirement" where
  "set_if k None req = req"
| "set_if k (Some []) req = req"
| "set_if k (Some (v # vs)) req = req @ [(k, v # vs)]"

definition parse_permissions ::
  "requirement \<Rightarrow> string list option \<Rightarrow> string list option \<Rightarrow> string list option \<Rightarrow>
   string list option \<Rightarrow> requirement option \<Rightarrow> requirement" where
  "parse_permissions DEFAULT_PERMISSION users_arg groups_arg roles_arg actions_arg default_permissions =
     (let req = set_if ''actions'' actions_arg
                  (set_if ''roles'' roles_arg
                     (set_if ''groups'' groups_arg
                        (set_if ''users'' users_arg [])))
      in if req = []
         then (case default_permissions of
                 None \<Rightarrow> DEFAULT_PERMISSION
               | Some [] \<Rightarrow> DEFAULT_PERMISSION
               | Some (d # ds) \<Rightarrow> d # ds)
         else req)"

text \<open>
  The check inside \<^verbatim>\<open>mock_function\<close>, after the token is decoded and found in the
  tracking store:
  \<^verbatim>\<open>
  allowed = False
  for auth_type, values in permissions.items():
      if auth_type not in token["permissions"]:
          self.log.warning(f"{auth_type} is required")
          continue
      for value in values:
          if value in token["permissions"][auth_type]:
              allowed = True
              break
  if not allowed:
      if response_class is HTMLResponse:
          response = HTMLResponse(await self.get_403_page(), status_code=403)
          return response
      raise HTTPException(
          status_code=403,
          detail=f"not authorized, permissions required: {permissions}",
      )
  \<close>
\<close>

fun values_loop :: "string list \<Rightarrow> string list \<Rightarrow> bool \<Rightarrow> bool" where
  "values_loop [] granted allowed = allowed"
| "values_loop (v # vs) granted allowed =
     (if v \<in> set granted then True else values_loop vs granted allowed)"

fun items_loop :: "requirement \<Rightarrow> permissions \<Rightarrow> bool \<Rightarrow> bool" where
  "items_loop [] token_permissions allowed = allowed"
| "items_loop ((auth_type, vs) # rest) token_permissions allowed =
     (case token_permissions auth_type of
        None \<Rightarrow> items_loop rest token_permissions allowed
      | Some granted \<Rightarrow> items_loop rest token_permissions (values_loop vs granted allowed))"

datatype decision = HTMLResponse nat | CallEndpoint

definition permission_check :: "bool \<Rightarrow> requirement \<Rightarrow> permissions \<Rightarrow> exn + decision" where
  "permission_check response_class_is_html req token_permissions =
     (let allowed = items_loop req token_permissions False
      in if \<not> allowed
         then (if response_class_is_html then Inr (HTMLResponse 403)
               else Inl (HTTPException 403 (PermissionsRequired req)))
         else Inr CallEndpoint)"

section \<open>Password validation: validate_user_pw\<close>

text \<open>
  \<^verbatim>\<open>
  def is_password_valid(self, encoded, input_password):
      has_and_salt = encoded.encode()
      return bcrypt.checkpw(input_password.encode(), has_and_salt)

  async def validate_user_pw(self, username, password) -> Union[Users, None]:
      user = await Users.get(username=username)
      if user:
          if user.account_type == "service":
              raise HTTPException(
                  status_code=401, detail="unable to login with service accounts"
              )
          try:
              try:
                  if not self.is_password_valid(user.password, password):
                      return None
                  return user
              except ValueError as e:
                  self.log.exception("error validating user_pw")
              return user
          except Exception as e:
              self.log.error(
                  f"Auth failed for user {user.username} - invalid credentials"
              )
      return None
  \<close>
  \<open>checkpw\<close> stands for the two \<^verbatim>\<open>encode()\<close> calls and the library call
  \<^verbatim>\<open>bcrypt.checkpw(password, hashed)\<close>, all inside the inner \<^verbatim>\<open>try\<close>: it
  returns a boolean or raises (a \<^verbatim>\<open>ValueError\<close> for a hash it cannot parse or for
  a password that cannot be encoded).
\<close>

definition is_password_valid ::
  "(string \<Rightarrow> string \<Rightarrow> exn + bool) \<Rightarrow> string \<Rightarrow> string \<Rightarrow> exn + bool" where
  "is_password_valid checkpw encoded input_password = checkpw input_password encoded"

definition validate_user_pw ::
  "(string \<Rightarrow> string \<Rightarrow> exn + bool) \<Rightarrow> world \<Rightarrow> string \<Rightarrow> string \<Rightarrow> exn + user_row option" where
  "validate_user_pw checkpw w name pw =
     (case Users_get (Users w) name of
        None \<Rightarrow> Inr None
      | Some user \<Rightarrow>
          if account_type user = ''service''
          then Inl (HTTPException 401 (Text ''unable to login with service accounts''))
          else (case is_password_valid checkpw (password user) pw of
                  Inr valid \<Rightarrow> if \<not> valid then Inr None else Inr (Some user)
                | Inl e \<Rightarrow> if is_ValueError e then Inr (Some user) else Inr None))"

section \<open>Google federation: generate_google_oauth_token\<close>

text \<open>
  The claims of a verified Google ID token. \<^verbatim>\<open>idinfo\<close> is a dict; a key that is
  absent is \<open>None\<close> here. \<open>email\<close> is a string and \<open>email_verified\<close> a boolean, as
  Google's ID tokens carry them.
\<close>

record idinfo =
  claim_email :: "string option"
  claim_email_verified :: "bool option"
  claim_given_name :: "string option"
  claim_family_name :: "string option"

record request =
  headers :: "string \<rightharpoonup> string"
  body :: string

text \<open>The dict handed to \<^verbatim>\<open>self.register_user\<close>.\<close>

record registration =
  reg_username :: string
  reg_email_address :: string
  reg_full_name :: string
  reg_email :: string
  reg_password :: string
  reg_repeat_password :: string
  reg_groups :: "string list"

datatype federation_result = Pending string | Token jwt

text \<open>\<^verbatim>\<open>pat in s\<close> for two strings: \<open>pat\<close> occurs in \<open>s\<close> as a contiguous piece.\<close>

fun py_contains :: "string \<Rightarrow> string \<Rightarrow> bool" where
  "py_contains pat [] = (pat = [])"
| "py_contains pat (c # cs) = (take (length pat) (c # cs) = pat \<or> py_contains pat cs)"

text \<open>
  \<^verbatim>\<open>
  if not auth_code:
      google_client_type = request.headers.get("X-Google-OAuth2-Type")
      if google_client_type != "client":
          raise GoogleOauthHeaderMalformed
      body_bytes = await request.body()
      auth_code = jsonable_encoder(body_bytes)
  \<close>
\<close>

definition google_auth_code :: "request option \<Rightarrow> string option \<Rightarrow> exn + string" where
  "google_auth_code req auth_code =
     (case auth_code of
        Some (c # cs) \<Rightarrow> Inr (c # cs)
      | _ \<Rightarrow>
         (case req of
            None \<Rightarrow> Inl AttributeError
          | Some r \<Rightarrow>
              if headers r ''X-Google-OAuth2-Type'' \<noteq> Some ''client''
              then Inl GoogleOauthHeaderMalformed
              else Inr (body r)))"

text \<open>
  \<^verbatim>\<open>
  try:
      idinfo = id_token.verify_oauth2_token(
          auth_code, requests.Request(), oauth_config.client_id
      )
      if idinfo["email"] and idinfo["email_verified"]:
          email = idinfo.get("email")
      else:
          raise HTTPException(status_code=400, detail="Unable to validate social login")
  except Exception as e:
      self.log.exception("error validating social login")
      raise HTTPException(status_code=400, detail="Unable to validate social login")
  \<close>
  \<open>verify\<close> stands for \<^verbatim>\<open>google.oauth2.id_token.verify_oauth2_token\<close>: it returns the
  token's claims or raises. \<open>google_try_body\<close> is the body of the \<^verbatim>\<open>try\<close>.
\<close>

definition google_try_body ::
  "(string \<Rightarrow> string \<Rightarrow> exn + idinfo) \<Rightarrow> string \<Rightarrow> string \<Rightarrow> exn + idinfo \<times> string" where
  "google_try_body verify auth_code cid =
     (case verify auth_code cid of
        Inl e \<Rightarrow> Inl e
      | Inr info \<Rightarrow>
         (case claim_email info of
            None \<Rightarrow> Inl (KeyError ''email'')
          | Some addr \<Rightarrow>
              if addr = [] then Inl (HTTPException 400 (Text ''Unable to validate social login''))
              else (case claim_email_verified info of
                      None \<Rightarrow> Inl (KeyError ''email_verified'')
                    | Some verified \<Rightarrow>
                        if verified then Inr (info, addr)
                        else Inl (HTTPException 400 (Text ''Unable to validate social login'')))))"

definition google_verified_email ::
  "(string \<Rightarrow> string \<Rightarrow> exn + idinfo) \<Rightarrow> string \<Rightarrow> string \<Rightarrow> exn + idinfo \<times> string" where
  "google_verified_email verify auth_code cid =
     (case google_try_body verify auth_code cid of
        Inl e \<Rightarrow> Inl (HTTPException 400 (Text ''Unable to validate social login''))
      | Inr r \<Rightarrow> Inr r)"

text \<open>
  \<^verbatim>\<open>
  permissions = await self.get_user_permissions(user[0])
  return await self.issue_token(permissions)
  \<close>
\<close>

definition google_issue ::
  "jwk \<Rightarrow> string \<Rightarrow> world \<Rightarrow> user_row list \<Rightarrow> (exn + federation_result) \<times> world" where
  "google_issue privkey uuid w found =
     (case found of
        [] \<Rightarrow> (Inl IndexError, w)
      | user # rest \<Rightarrow>
         (case issue_token privkey uuid w (get_user_permissions user) 60 0 0 of
            (Inl e, w1) \<Rightarrow> (Inl e, w1)
          | (Inr signed, w1) \<Rightarrow> (Inr (Token signed), w1)))"

text \<open>
  \<^verbatim>\<open>
  user = await Users.filter(email=email)
  if not user:
      result = await self.register_user(
          {
              "username": email,
              "email address": email,
              "full name": f"{idinfo['given_name']} {idinfo['family_name']}",
              "email": email,
              "password": "",
              "repeat password": "",
              "groups": [g.group_name for g in oauth_config.default_groups],
          }
      )
      if "Activation email sent to" in result:
          return result
      user = await Users.filter(email=email)
  \<close>
  \<open>register_user\<close> is the registration collaborator, set up outside this file.
\<close>

definition google_login ::
  "(world \<Rightarrow> registration \<Rightarrow> (exn + string) \<times> world) \<Rightarrow> jwk \<Rightarrow> string \<Rightarrow> world \<Rightarrow>
   oauth_row \<Rightarrow> idinfo \<Rightarrow> string \<Rightarrow> (exn + federation_result) \<times> world" where
  "google_login register_user privkey uuid w oauth_config info addr =
     (case Users_filter_email (Users w) addr of
        u # us \<Rightarrow> google_issue privkey uuid w (u # us)
      | [] \<Rightarrow>
         (case claim_given_name info of
            None \<Rightarrow> (Inl (KeyError ''given_name''), w)
          | Some given \<Rightarrow>
             (case claim_family_name info of
                None \<Rightarrow> (Inl (KeyError ''family_name''), w)
              | Some family \<Rightarrow>
                 (case register_user w
                         \<lparr>reg_username = addr, reg_email_address = addr,
                          reg_full_name = given @ '' '' @ family, reg_email = addr,
                          reg_password = [], reg_repeat_password = [],
                          reg_groups = map group_name (default_groups oauth_config)\<rparr> of
                    (Inl e, w1) \<Rightarrow> (Inl e, w1)
                  | (Inr result, w1) \<Rightarrow>
                      if py_contains ''Activation email sent to'' result
                      then (Inr (Pending result), w1)
                      else google_issue privkey uuid w1 (Users_filter_email (Users w1) addr)))))"

text \<open>
  \<^verbatim>\<open>
  async def generate_google_oauth_token(self, request=None, auth_code=None):
      google_oauth = await OauthConfig.filter(provider="google")
      if not google_oauth:
          raise GoogleOauthNotEnabledOrConfigured
      oauth_config = google_oauth[0]
      ...
  \<close>
\<close>

definition generate_google_oauth_token ::
  "(string \<Rightarrow> string \<Rightarrow> exn + idinfo) \<Rightarrow> (world \<Rightarrow> registration \<Rightarrow> (exn + string) \<times> world) \<Rightarrow>
   jwk \<Rightarrow> string \<Rightarrow> world \<Rightarrow> request option \<Rightarrow> string option \<Rightarrow>
   (exn + federation_result) \<times> world" where
  "generate_google_oauth_token verify register_user privkey uuid w req auth_code =
     (case OauthConfig_filter_provider (OauthConfig w) ''google'' of
        [] \<Rightarrow> (Inl GoogleOauthNotEnabledOrConfigured, w)
      | oauth_config # others \<Rightarrow>
         (case google_auth_code req auth_code of
            Inl e \<Rightarrow> (Inl e, w)
          | Inr code \<Rightarrow>
             (case google_verified_email verify code (client_id oauth_config) of
                Inl e \<Rightarrow> (Inl e, w)
              | Inr (info, addr) \<Rightarrow>
                  google_login register_user privkey uuid w oauth_config info addr)))"

section \<open>Key startup: key_setup\<close>

text \<open>
  The file system as \<^verbatim>\<open>key_setup\<close> sees it: the regular files with their contents,
  the directories, the paths that \<^verbatim>\<open>open(p, "r")\<close> refuses although the file
  exists, and the paths that \<^verbatim>\<open>open(p, "w")\<close> or \<^verbatim>\<open>os.makedirs(p)\<close> refuses.
\<close>

record filesystem =
  files :: "string \<rightharpoonup> string"
  dirs :: "string set"
  no_read :: "string set"
  no_write :: "string set"

definition path_exists :: "filesystem \<Rightarrow> string \<Rightarrow> bool" where
  "path_exists fs p = (p \<noteq> [] \<and> (files fs p \<noteq> None \<or> p \<in> dirs fs))"

definition makedirs :: "filesystem \<Rightarrow> string \<Rightarrow> exn + filesystem" where
  "makedirs fs p =
     (if p = [] then Inl FileNotFoundError
      else if p \<in> no_write fs then Inl PermissionError
      else Inr (fs\<lparr>dirs := insert p (dirs fs)\<rparr>))"

definition open_read :: "filesystem \<Rightarrow> string \<Rightarrow> exn + string" where
  "open_read fs p =
     (case files fs p of
        None \<Rightarrow> Inl FileNotFoundError
      | Some content \<Rightarrow> if p \<in> no_read fs then Inl PermissionError else Inr content)"

definition open_write :: "filesystem \<Rightarrow> string \<Rightarrow> string \<Rightarrow> exn + filesystem" where
  "open_write fs p content =
     (if p \<in> no_write fs then Inl PermissionError
      else Inr (fs\<lparr>files := (files fs)(p \<mapsto> content)\<rparr>))"

text \<open>\<^verbatim>\<open>k.readline()\<close>: the first line, with its newline when there is one.\<close>

fun readline :: "string \<Rightarrow> string" where
  "readline [] = []"
| "readline (c # cs) = (if c = CHR 0x0A then [c] else c # readline cs)"

text \<open>
  The calls into \<^verbatim>\<open>jwcrypto.jwk\<close>: parsing a key from JSON (which raises on text
  that is no key), the two exports, and the generation of a fresh RSA key with the given
  \<open>kid\<close>, \<open>kty\<close> and \<open>size\<close>.
\<close>

record jwcrypto =
  from_json :: "string \<Rightarrow> exn + jwk"
  export_private :: "jwk \<Rightarrow> string"
  export_public :: "jwk \<Rightarrow> string"
  generate :: "string \<Rightarrow> string \<Rightarrow> nat \<Rightarrow> jwk"

text \<open>
  \<^verbatim>\<open>
  def generate_random_string(self, size: int) -> str:
      letters = string.ascii_lowercase
      return "".join(random.choice(letters) for i in range(size))
  \<close>
  \<open>rnd i\<close> is the \<open>i\<close>-th draw of the random source.
\<close>

definition ascii_lowercase :: string where
  "ascii_lowercase = ''abcdefghijklmnopqrstuvwxyz''"

definition generate_random_string :: "(nat \<Rightarrow> nat) \<Rightarrow> nat \<Rightarrow> string" where
  "generate_random_string rnd n = map (\<lambda>i. ascii_lowercase ! (rnd i mod 26)) [0..<n]"

text \<open>
  \<^verbatim>\<open>
  try:
      with open(key_path + ".key", "r") as k:
          self._privkey = jwk.JWK.from_json(k.readline())
  except Exception:
      # create private / public keys
      self._privkey = jwk.JWK.generate(
          kid=self.generate_random_string(56), kty="RSA", size=2048
      )
      with open(key_path + ".key", "w") as k:
          k.write(self._privkey.export_private())
  \<close>
\<close>

definition load_private_key :: "jwcrypto \<Rightarrow> filesystem \<Rightarrow> string \<Rightarrow> exn + jwk" where
  "load_private_key lib fs key_path =
     (case open_read fs (key_path @ ''.key'') of
        Inl e \<Rightarrow> Inl e
      | Inr content \<Rightarrow> from_json lib (readline content))"

definition private_key_step ::
  "jwcrypto \<Rightarrow> (nat \<Rightarrow> nat) \<Rightarrow> filesystem \<Rightarrow> string \<Rightarrow> (exn + jwk) \<times> filesystem" where
  "private_key_step lib rnd fs key_path =
     (case load_private_key lib fs key_path of
        Inr privkey \<Rightarrow> (Inr privkey, fs)
      | Inl e \<Rightarrow>
         (let privkey = generate lib (generate_random_string rnd 56) ''RSA'' 2048
          in case open_write fs (key_path @ ''.key'') (export_private lib privkey) of
               Inl e' \<Rightarrow> (Inl e', fs)
             | Inr fs1 \<Rightarrow> (Inr privkey, fs1)))"

text \<open>
  \<^verbatim>\<open>
  try:
      with open(key_path + ".pub", "r") as k:
          pass
  except Exception:
      with open(key_path + ".pub", "w") as pb:
          pb.write(self._privkey.export_public())
  \<close>
\<close>

definition public_key_step :: "jwcrypto \<Rightarrow> filesystem \<Rightarrow> string \<Rightarrow> jwk \<Rightarrow> exn + filesystem" where
  "public_key_step lib fs key_path privkey =
     (case open_read fs (key_path @ ''.pub'') of
        Inr content \<Rightarrow> Inr fs
      | Inl e \<Rightarrow> open_write fs (key_path @ ''.pub'') (export_public lib privkey))"

text \<open>
  \<^verbatim>\<open>
  def key_setup(self):
      # check if keys exist in KEY_PATH else create
      assert "KEY_NAME" in os.environ, f"missing KEY_NAME env variable"
      key_path = os.getenv("KEY_PATH", "")
      if not os.path.exists(key_path):
          os.makedirs(key_path)
      if key_path:
          key_path = f"{key_path}/{os.environ['KEY_NAME']}"
      else:
          key_path = f"{os.environ['KEY_NAME']}"
      if not os.path.exists(key_path):
          with open(key_path, "w") as file:
              file.write("")
      ...
  \<close>
  The result is the key stored in \<^verbatim>\<open>self._privkey\<close>.
\<close>

definition key_setup ::
  "jwcrypto \<Rightarrow> (nat \<Rightarrow> nat) \<Rightarrow> (string \<rightharpoonup> string) \<Rightarrow> filesystem \<Rightarrow> (exn + jwk) \<times> filesystem" where
  "key_setup lib rnd env fs =
     (case env ''KEY_NAME'' of
        None \<Rightarrow> (Inl (AssertionError ''missing KEY_NAME env variable''), fs)
      | Some key_name \<Rightarrow>
         (let key_dir = (case env ''KEY_PATH'' of None \<Rightarrow> [] | Some p \<Rightarrow> p)
          in case (if \<not> path_exists fs key_dir then makedirs fs key_dir else Inr fs) of
               Inl e \<Rightarrow> (Inl e, fs)
             | Inr fs1 \<Rightarrow>
                (let key_path = (if key_dir \<noteq> [] then key_dir @ ''/'' @ key_name else key_name)
                 in case (if \<not> path_exists fs1 key_path then open_write fs1 key_path []
                          else Inr fs1) of
                      Inl e \<Rightarrow> (Inl e, fs1)
                    | Inr fs2 \<Rightarrow>
                       (case private_key_step lib rnd fs2 key_path of
                          (Inl e, fs3) \<Rightarrow> (Inl e, fs3)
                        | (Inr privkey, fs3) \<Rightarrow>
                           (case public_key_step lib fs3 key_path privkey of
                              Inl e \<Rightarrow> (Inl e, fs3)
                            | Inr fs4 \<Rightarrow> (Inr privkey, fs4))))))"

section \<open>Example inputs\<close>

text \<open>
  Two groups that share an action: \<open>G1\<close> has role \<open>R1\<close> with actions \<open>A1\<close>, \<open>A2\<close>,
  and \<open>G2\<close> has role \<open>R2\<close> with action \<open>A2\<close>.
\<close>

definition A1 :: action_row where "A1 = Actions ''A1'' ''first action''"
definition A2 :: action_row where "A2 = Actions ''A2'' ''second action''"
definition R1 :: role_row where "R1 = Roles ''R1'' [A1, A2]"
definition R2 :: role_row where "R2 = Roles ''R2'' [A2]"
definition G1 :: group_row where "G1 = Groups ''G1'' [R1]"
definition G2 :: group_row where "G2 = Groups ''G2'' [R2]"

text \<open>
  Three accounts: \<open>alice\<close>, whose stored hash is not a bcrypt hash; \<open>bob\<close>, with a
  well-formed hash; and the service account \<open>svc\<close>.
\<close>

definition alice :: user_row where
  "alice = \<lparr>username = ''alice'', password = ''not-a-bcrypt-hash'', account_type = ''user'',
            email = ''alice@example.org'', groups = [G1, G2]\<rparr>"

definition bob :: user_row where
  "bob = \<lparr>username = ''bob'', password = ''hash:secret'', account_type = ''user'',
          email = ''bob@example.org'', groups = [G1]\<rparr>"

definition svc :: user_row where
  "svc = \<lparr>username = ''svc'', password = ''hash:key'', account_type = ''service'',
          email = ''svc@example.org'', groups = []\<rparr>"

text \<open>
  A stand-in for \<^verbatim>\<open>bcrypt.checkpw\<close> on these accounts: it raises
  \<^verbatim>\<open>ValueError\<close> on the hash it cannot parse and compares otherwise.
\<close>

definition ex_checkpw :: "string \<Rightarrow> string \<Rightarrow> exn + bool" where
  "ex_checkpw pw hashed =
     (if hashed = ''not-a-bcrypt-hash'' then Inl (ValueError ''Invalid salt'')
      else Inr (hashed = ''hash:'' @ pw))"

definition tok1 :: token_row where
  "tok1 = \<lparr>token_id = ''t1'', token_username = ''alice'', issued = 0, expiration = 900,
           token = [''users'' \<mapsto> [''alice'']]\<rparr>"

definition tok2 :: token_row where
  "tok2 = \<lparr>token_id = ''t2'', token_username = ''bob'', issued = 100, expiration = 1000,
           token = [''users'' \<mapsto> [''bob'']]\<rparr>"

definition tok3 :: token_row where
  "tok3 = \<lparr>token_id = ''t3'', token_username = ''bob'', issued = 600, expiration = 1500,
           token = [''users'' \<mapsto> [''bob'']]\<rparr>"

definition google_config :: oauth_row where
  "google_config = \<lparr>provider = ''google'', client_id = ''client-1'', enabled = True,
                    default_groups = [G1]\<rparr>"

text \<open>A world whose clock advances by one second at every reading, from 1000 on.\<close>

definition ex_world :: world where
  "ex_world = \<lparr>Users = [alice, bob, svc], Tokens = [tok1, tok2, tok3],
               OauthConfig = [google_config],
               environ = [''ISSUER'' \<mapsto> ''easyauth'', ''SUBJECT'' \<mapsto> ''users'',
                          ''AUDIENCE'' \<mapsto> ''services''],
               clock = (\<lambda>k. 1000 + int k), ticks = 0\<rparr>"

text \<open>The same world with the clock standing still at 1000.\<close>

definition still_world :: world where
  "still_world = ex_world\<lparr>clock := (\<lambda>k. 1000)\<rparr>"

definition ex_key :: jwk where
  "ex_key = JWK ''kid'' ''RSA'' 2048 ''private-material''"

text \<open>
  A stand-in for Google's verifier: the code \<open>''unverified''\<close> is the ID token of an
  address Google has not verified, \<open>''no-email''\<close> one without an email claim,
  \<open>''carol''\<close> one of a verified address; any other code is rejected.
\<close>

definition ex_verify :: "string \<Rightarrow> string \<Rightarrow> exn + idinfo" where
  "ex_verify code cid =
     (if cid \<noteq> ''client-1'' then Inl (ValueError ''wrong audience'')
      else if code = ''unverified''
      then Inr \<lparr>claim_email = Some ''mallory@example.org'', claim_email_verified = Some False,
                claim_given_name = Some ''Mallory'', claim_family_name = Some ''M''\<rparr>
      else if code = ''no-email''
      then Inr \<lparr>claim_email = None, claim_email_verified = Some True,
                claim_given_name = Some ''Nobody'', claim_family_name = Some ''N''\<rparr>
      else if code = ''carol''
      then Inr \<lparr>claim_email = Some ''carol@example.org'', claim_email_verified = Some True,
                claim_given_name = Some ''Carol'', claim_family_name = Some ''C''\<rparr>
      else Inl (ValueError ''invalid token''))"

text \<open>A registration collaborator that creates the account at once, with no groups.\<close>

definition ex_register :: "world \<Rightarrow> registration \<Rightarrow> (exn + string) \<times> world" where
  "ex_register w reg =
     (Inr ''registered'',
      w\<lparr>Users := Users w @ [\<lparr>username = reg_username reg, password = [],
                               account_type = ''user'', email = reg_email reg,
                               groups = []\<rparr>]\<rparr>)"

text \<open>
  A key directory after an earlier start, in which the private key file was damaged
  afterwards: \<open>keys/easyauth.key\<close> holds text that is no key, and
  \<open>keys/easyauth.pub\<close> still holds the public half of the earlier key.
\<close>

definition ex_jwcrypto :: jwcrypto where
  "ex_jwcrypto =
     \<lparr>from_json = (\<lambda>text. if take 8 text = ''private:''
                            then Inr (JWK ''kid'' ''RSA'' 2048 (drop 8 text))
                            else Inl (ValueError ''cannot parse key'')),
      export_private = (\<lambda>k. ''private:'' @ material k),
      export_public = (\<lambda>k. ''public:'' @ material k),
      generate = (\<lambda>k t n. JWK k t n ''fresh-material'')\<rparr>"

definition ex_rnd :: "nat \<Rightarrow> nat" where
  "ex_rnd i = 7 * i + 3"

definition key_env :: "string \<rightharpoonup> string" where
  "key_env = [''KEY_NAME'' \<mapsto> ''easyauth'', ''KEY_PATH'' \<mapsto> ''keys'']"

definition damaged_fs :: filesystem where
  "damaged_fs =
     \<lparr>files = [''keys/easyauth'' \<mapsto> [], ''keys/easyauth.key'' \<mapsto> ''garbage'',
               ''keys/easyauth.pub'' \<mapsto> ''public:old-material''],
      dirs = {''keys''}, no_read = {}, no_write = {}\<rparr>"

text \<open>
  A store with two records that expire at the same time 1000, swept with a clock that
  reads 1000 and then 1001.
\<close>

definition twin_a :: token_row where
  "twin_a = \<lparr>token_id = ''a'', token_username = ''alice'', issued = 0, expiration = 1000,
             token = [''users'' \<mapsto> [''alice'']]\<rparr>"

definition twin_b :: token_row where
  "twin_b = \<lparr>token_id = ''b'', token_username = ''bob'', issued = 0, expiration = 1000,
             token = [''users'' \<mapsto> [''bob'']]\<rparr>"

definition twin_world :: world where
  "twin_world = ex_world\<lparr>Tokens := [twin_a, twin_b]\<rparr>"

text \<open>
  The damaged key directory again, now without a public key file and with the path
  \<open>keys/easyauth.pub\<close> refusing writes.
\<close>

definition locked_pub_fs :: filesystem where
  "locked_pub_fs =
     \<lparr>files = [''keys/easyauth'' \<mapsto> [], ''keys/easyauth.key'' \<mapsto> ''garbage''],
      dirs = {''keys''}, no_read = {}, no_write = {''keys/easyauth.pub''}\<rparr>"

section \<open>Properties of the token tracking store\<close>

lemma Tokens_get_token_id: "Tokens_get rows tid = Some t \<Longrightarrow> token_id t = tid"
  by (auto simp: Tokens_get_def find_Some_iff)

lemma Tokens_get_after_delete:
  "token_id t = tid \<Longrightarrow> Tokens_get (Tokens_delete rows t) tid = None"
  by (auto simp: Tokens_get_def Tokens_delete_def find_None_iff)

text \<open>
  Claim C7. After \<open>revoke_token\<close>, \<open>is_valid_token\<close> on the same id is false, whatever
  the store held. \<open>revoke_token\<close> never raises. On an id that has no record (unknown or
  already revoked) it returns and leaves the whole state as it was, so a second revoke
  changes nothing.
\<close>

theorem revoke_token_then_inactive:
  "\<not> is_valid_token (snd (revoke_token w tid)) tid
   \<and> fst (revoke_token w tid) = Inr ()
   \<and> (\<not> is_valid_token w tid \<longrightarrow> revoke_token w tid = (Inr (), w))
   \<and> revoke_token (snd (revoke_token w tid)) tid = (Inr (), snd (revoke_token w tid))"
proof -
  have gone: "Tokens_get (Tokens (snd (revoke_token w tid))) tid = None"
  proof (cases "Tokens_get (Tokens w) tid")
    case None
    then show ?thesis by (simp add: revoke_token_def)
  next
    case (Some t)
    then show ?thesis
      by (simp add: revoke_token_def Tokens_get_after_delete Tokens_get_token_id)
  qed
  have ret: "fst (revoke_token w tid) = Inr ()"
    by (simp add: revoke_token_def split: option.split)
  have noop: "revoke_token v tid = (Inr (), v)" if "Tokens_get (Tokens v) tid = None" for v
    using that by (simp add: revoke_token_def)
  show ?thesis
    using gone ret noop [of w] noop [OF gone] by (simp add: is_valid_token_def)
qed

lemma ex_tokens_simps:
  "Tokens ex_world = [tok1, tok2, tok3]" "Tokens still_world = [tok1, tok2, tok3]"
  "token_id tok1 = ''t1''" "token_id tok2 = ''t2''" "token_id tok3 = ''t3''"
  "expiration tok1 = 900" "expiration tok2 = 1000" "expiration tok3 = 1500"
  "clock still_world = (\<lambda>k. 1000)" "ticks still_world = 0"
  by (simp_all add: ex_world_def still_world_def tok1_def tok2_def tok3_def)

theorem revoke_token_then_inactive_witness:
  "is_valid_token ex_world ''t2''
   \<and> \<not> is_valid_token (snd (revoke_token ex_world ''t2'')) ''t2''
   \<and> \<not> is_valid_token ex_world ''t9''
   \<and> revoke_token ex_world ''t9'' = (Inr (), ex_world)"
proof -
  have present: "is_valid_token ex_world ''t2''"
    by (simp add: is_valid_token_def Tokens_get_def ex_tokens_simps)
  have absent: "\<not> is_valid_token ex_world ''t9''"
    by (simp add: is_valid_token_def Tokens_get_def ex_tokens_simps)
  show ?thesis
    using present absent revoke_token_then_inactive [of ex_world "''t2''"]
      revoke_token_then_inactive [of ex_world "''t9''"]
    by simp
qed

section \<open>Properties of the expiry sweep\<close>

text \<open>
  The loop keeps a row unless an examined row with the same key had expired. Here every
  reading the loop takes shows the same time \<open>t\<close>.
\<close>

lemma cleanup_loop_Tokens:
  "\<forall>k<length ts. clock w (ticks w + k) = t \<Longrightarrow>
   Tokens (cleanup_loop ts w) =
     filter (\<lambda>r. token_id r \<notin> token_id ` {x \<in> set ts. expiration x < t}) (Tokens w)"
proof (induction ts arbitrary: w)
  case Nil
  then show ?case by simp
next
  case (Cons a ts)
  have here: "clock w (ticks w) = t"
    using Cons.prems by force
  have later: "\<forall>k<length ts. clock w (Suc (ticks w) + k) = t"
  proof (intro allI impI)
    fix k assume "k < length ts"
    then have "Suc k < length (a # ts)" by simp
    then have "clock w (ticks w + Suc k) = t" using Cons.prems by blast
    then show "clock w (Suc (ticks w) + k) = t" by simp
  qed
  show ?case
  proof (cases "expiration a < t")
    case True
    let ?w = "w\<lparr>ticks := Suc (ticks w), Tokens := Tokens_delete (Tokens w) a\<rparr>"
    have "Tokens (cleanup_loop ts ?w) =
            filter (\<lambda>r. token_id r \<notin> token_id ` {x \<in> set ts. expiration x < t}) (Tokens ?w)"
      by (rule Cons.IH) (use later in simp)
    then show ?thesis
      using True here by (auto simp: now_def Tokens_delete_def intro!: filter_cong)
  next
    case False
    let ?w = "w\<lparr>ticks := Suc (ticks w)\<rparr>"
    have "Tokens (cleanup_loop ts ?w) =
            filter (\<lambda>r. token_id r \<notin> token_id ` {x \<in> set ts. expiration x < t}) (Tokens ?w)"
      by (rule Cons.IH) (use later in simp)
    then show ?thesis
      using False here by (auto simp: now_def intro!: filter_cong)
  qed
qed

text \<open>
  For any clock: the sweep keeps the rows whose id was not found expired, each row being
  compared with the reading taken when it is examined.
\<close>

lemma cleanup_loop_any_clock:
  "Tokens (cleanup_loop ts w) =
     filter (\<lambda>r. token_id r \<notin> set (expired_ids ts (clock w) (ticks w))) (Tokens w)"
proof (induction ts arbitrary: w)
  case Nil
  then show ?case by simp
next
  case (Cons a ts)
  show ?case
  proof (cases "expiration a < clock w (ticks w)")
    case True
    then show ?thesis
      using Cons.IH [of "w\<lparr>ticks := Suc (ticks w), Tokens := Tokens_delete (Tokens w) a\<rparr>"]
      by (auto simp: now_def Tokens_delete_def intro!: filter_cong)
  next
    case False
    then show ?thesis
      using Cons.IH [of "w\<lparr>ticks := Suc (ticks w)\<rparr>"]
      by (auto simp: now_def intro!: filter_cong)
  qed
qed

lemma token_cleanup_any_clock:
  "Tokens (snd (token_cleanup w)) =
     filter (\<lambda>r. token_id r \<notin> set (expired_ids (Tokens w) (clock w) (ticks w))) (Tokens w)"
  by (simp add: token_cleanup_def Let_def cleanup_loop_any_clock)

text \<open>
  With the clock of \<open>ex_world\<close>, which moves on at every reading, the second row
  (expiration 1000) is examined at 1001 and removed.
\<close>

lemma token_cleanup_moving_clock_example: "Tokens (snd (token_cleanup ex_world)) = [tok3]"
  by (simp add: token_cleanup_any_clock ex_tokens_simps)
    (simp add: ex_world_def tok1_def tok2_def tok3_def)

lemma filter_expired_ids:
  assumes "distinct (map token_id rows)"
  shows "filter (\<lambda>r. token_id r \<notin> token_id ` {x \<in> set rows. expiration x < t}) rows =
         filter (\<lambda>r. \<not> expiration r < t) rows"
proof (rule filter_cong [OF refl])
  fix r assume r: "r \<in> set rows"
  have inj: "inj_on token_id (set rows)"
    using assms by (simp add: distinct_map)
  show "(token_id r \<notin> token_id ` {x \<in> set rows. expiration x < t}) = (\<not> expiration r < t)"
    using r inj by (auto dest: inj_onD)
qed

lemma removed_count:
  "int (length rows) - int (length (filter (\<lambda>r. \<not> P r) rows)) = int (length (filter P rows))"
  using sum_length_filter_compl [of P rows] by simp

text \<open>
  The special case of a clock that stands still: when every reading of the sweep shows
  the same time \<open>t\<close>, the rows removed are those with expiration before \<open>t\<close>.
\<close>

lemma token_cleanup_still_clock:
  assumes "distinct (map token_id (Tokens w))"
      and "\<forall>k<length (Tokens w). clock w (ticks w + k) = t"
  shows "Tokens (snd (token_cleanup w)) = filter (\<lambda>r. \<not> expiration r < t) (Tokens w)
       \<and> fst (token_cleanup w) =
           Inr (''finished cleaning ''
                @ str_int (int (length (filter (\<lambda>r. expiration r < t) (Tokens w))))
                @ '' expired tokens'')"
proof -
  have kept: "Tokens (cleanup_loop (Tokens w) w) = filter (\<lambda>r. \<not> expiration r < t) (Tokens w)"
    using cleanup_loop_Tokens [OF assms(2)] filter_expired_ids [OF assms(1)] by simp
  show ?thesis
    by (simp add: token_cleanup_def Let_def kept removed_count)
qed

text \<open>
  With one record per token id, deleting by id removes the examined row and no other, so
  the rows kept are those not found expired at their own reading.
\<close>

lemma expired_ids_subset: "set (expired_ids ts c n) \<subseteq> token_id ` set ts"
  by (induction ts arbitrary: n) auto

lemma length_observed: "length (observed ts c n) = length ts"
  by (induction ts arbitrary: n) auto

lemma kept_rows_observed:
  "distinct (map token_id ts) \<Longrightarrow>
   filter (\<lambda>r. token_id r \<notin> set (expired_ids ts c n)) ts =
     map fst (filter (\<lambda>(r, t). \<not> expiration r < t) (observed ts c n))"
proof (induction ts arbitrary: n)
  case Nil
  then show ?case by simp
next
  case (Cons a ts)
  have fresh: "token_id a \<notin> token_id ` set ts"
    using Cons.prems by auto
  then have a_later: "token_id a \<notin> set (expired_ids ts c (Suc n))"
    using expired_ids_subset [of ts c "Suc n"] by blast
  have rest: "filter (\<lambda>r. token_id r \<notin> set (expired_ids (a # ts) c n)) ts =
              filter (\<lambda>r. token_id r \<notin> set (expired_ids ts c (Suc n))) ts"
    using fresh by (intro filter_cong) (auto simp: image_iff)
  have ih: "filter (\<lambda>r. token_id r \<notin> set (expired_ids ts c (Suc n))) ts =
            map fst (filter (\<lambda>(r, t). \<not> expiration r < t) (observed ts c (Suc n)))"
    using Cons.IH [of "Suc n"] Cons.prems by simp
  have "filter (\<lambda>r. token_id r \<notin> set (expired_ids (a # ts) c n)) (a # ts)
          = (if \<not> expiration a < c n then [a] else [])
            @ filter (\<lambda>r. token_id r \<notin> set (expired_ids (a # ts) c n)) ts"
    using a_later by simp
  also have "\<dots> = (if \<not> expiration a < c n then [a] else [])
            @ map fst (filter (\<lambda>(r, t). \<not> expiration r < t) (observed ts c (Suc n)))"
    by (simp only: rest ih)
  also have "\<dots> = map fst (filter (\<lambda>(r, t). \<not> expiration r < t) (observed (a # ts) c n))"
    by simp
  finally show ?case .
qed

lemma removed_count_observed:
  "int (length ts) - int (length (filter (\<lambda>(r, t). \<not> expiration r < t) (observed ts c n)))
     = int (length (filter (\<lambda>(r, t). expiration r < t) (observed ts c n)))"
proof -
  have eq: "(\<lambda>(r, t). \<not> expiration r < t) = (\<lambda>x. \<not> (case x of (r, t) \<Rightarrow> expiration r < (t::int)))"
    by auto
  have "int (length (observed ts c n))
          - int (length (filter (\<lambda>x. \<not> (case x of (r, t) \<Rightarrow> expiration r < t)) (observed ts c n)))
        = int (length (filter (\<lambda>(r, t). expiration r < t) (observed ts c n)))"
    by (rule removed_count)
  then show ?thesis
    by (simp only: eq length_observed)
qed

text \<open>
  Claim C6, amended. Let the tracking store hold one record per token id, and let
  nothing else change the store during the sweep. \<open>token_cleanup\<close> reads the clock once
  for every record it examines; \<open>observed\<close> pairs each record with the time read for it.
  The sweep leaves exactly the records whose expiration is not before the time observed
  for them, in their order: it removes every record whose expiration is strictly before
  its observed time and none whose expiration is at or after it. The message it returns
  reports the number of records removed.
\<close>

theorem token_cleanup_removes_expired_per_reading:
  assumes "distinct (map token_id (Tokens w))"
  shows "Tokens (snd (token_cleanup w)) =
           map fst (filter (\<lambda>(r, t). \<not> expiration r < t)
                      (observed (Tokens w) (clock w) (ticks w)))
       \<and> fst (token_cleanup w) =
           Inr (''finished cleaning ''
                @ str_int (int (length (filter (\<lambda>(r, t). expiration r < t)
                                         (observed (Tokens w) (clock w) (ticks w)))))
                @ '' expired tokens'')"
proof -
  have kept: "Tokens (cleanup_loop (Tokens w) w) =
                map fst (filter (\<lambda>(r, t). \<not> expiration r < t)
                           (observed (Tokens w) (clock w) (ticks w)))"
    using cleanup_loop_any_clock [of "Tokens w" w] kept_rows_observed [OF assms] by simp
  show ?thesis
    by (simp add: token_cleanup_def Let_def kept removed_count_observed)
qed

lemma twin_simps:
  "Tokens twin_world = [twin_a, twin_b]" "clock twin_world = (\<lambda>k. 1000 + int k)"
  "ticks twin_world = 0"
  "token_id twin_a = ''a''" "token_id twin_b = ''b''"
  "expiration twin_a = 1000" "expiration twin_b = 1000"
  by (simp_all add: twin_world_def ex_world_def twin_a_def twin_b_def)

lemma twin_sweep: "Tokens (snd (token_cleanup twin_world)) = [twin_a]"
  by (simp add: token_cleanup_any_clock twin_simps)

text \<open>
  Claim C6 as stated fails when the clock moves during the sweep. The two records of
  \<open>twin_world\<close> both expire at 1000; the first is examined at 1000 and kept, the second
  at 1001 and removed. No single observed time separates a removed record from a kept
  one with the same expiration.
\<close>

theorem token_cleanup_single_time_counterexample:
  "map expiration (Tokens twin_world) = [1000, 1000]
   \<and> map token_id (Tokens twin_world) = [''a'', ''b'']
   \<and> map token_id (Tokens (snd (token_cleanup twin_world))) = [''a'']"
  by (simp add: twin_sweep twin_simps)

text \<open>
  Hence no time \<open>t\<close> describes that sweep as "exactly the records with expiration
  before \<open>t\<close> are removed".
\<close>

lemma token_cleanup_no_single_time:
  "\<not> (\<exists>t. Tokens (snd (token_cleanup twin_world))
            = filter (\<lambda>r. \<not> expiration r < t) (Tokens twin_world))"
  by (auto simp: twin_sweep twin_simps twin_a_def twin_b_def)

theorem token_cleanup_removes_expired_per_reading_witness:
  "Tokens (snd (token_cleanup ex_world)) = [tok3]
   \<and> fst (token_cleanup ex_world) = Inr ''finished cleaning 2 expired tokens''
   \<and> Tokens (snd (token_cleanup twin_world)) = [twin_a]
   \<and> fst (token_cleanup twin_world) = Inr ''finished cleaning 1 expired tokens''"
proof -
  have keys: "distinct (map token_id (Tokens ex_world))" "distinct (map token_id (Tokens twin_world))"
    by (simp_all add: ex_tokens_simps twin_simps)
  have num: "str_int 1 = ''1''" "str_int 2 = ''2''"
    by (simp_all add: str_int_def str_nat.simps digit_char_def)
  have c: "clock ex_world = (\<lambda>k. 1000 + int k)" "ticks ex_world = 0"
    by (simp_all add: ex_world_def)
  show ?thesis
    using token_cleanup_removes_expired_per_reading [OF keys(1)]
      token_cleanup_removes_expired_per_reading [OF keys(2)] num
    by (simp add: ex_tokens_simps twin_simps c)
qed

section \<open>Properties of the permission check\<close>

lemma values_loop_iff:
  "values_loop vs granted allowed \<longleftrightarrow> allowed \<or> set vs \<inter> set granted \<noteq> {}"
  by (induction vs) auto

lemma items_loop_iff:
  "items_loop req tp allowed \<longleftrightarrow>
     allowed \<or> (\<exists>(k, vs) \<in> set req. \<exists>granted. tp k = Some granted \<and> set vs \<inter> set granted \<noteq> {})"
proof (induction req arbitrary: allowed)
  case Nil
  then show ?case by simp
next
  case (Cons item req)
  obtain k vs where item: "item = (k, vs)" by (cases item)
  show ?case
  proof (cases "tp k")
    case None
    then show ?thesis using Cons.IH [of allowed] item by auto
  next
    case (Some granted)
    then show ?thesis
      using Cons.IH [of "values_loop vs granted allowed"] item values_loop_iff [of vs granted allowed]
      by auto
  qed
qed

text \<open>
  Claim C4. The permission check lets the request through to the endpoint exactly when
  some item of the requirement names a dimension that the token's snapshot also has and
  one of the item's values is among the snapshot's values for that dimension. A
  requirement with no items is refused, also when it comes out of \<open>parse_permissions\<close>
  with no dimension set and empty defaults.
\<close>

theorem permission_check_allows_iff_overlap:
  "(permission_check html req snap = Inr CallEndpoint) =
     (\<exists>(k, vs) \<in> set req. \<exists>granted. snap k = Some granted \<and> set vs \<inter> set granted \<noteq> {})
   \<and> permission_check html [] snap \<noteq> Inr CallEndpoint
   \<and> permission_check html (parse_permissions [] None None None None None) snap \<noteq> Inr CallEndpoint"
proof -
  have empty: "parse_permissions [] None None None None None = []"
    by (simp add: parse_permissions_def)
  have main: "(permission_check h r snap = Inr CallEndpoint) =
     (\<exists>(k, vs) \<in> set r. \<exists>granted. snap k = Some granted \<and> set vs \<inter> set granted \<noteq> {})" for h r
    using items_loop_iff [of r snap False] by (simp add: permission_check_def)
  show ?thesis
    using main [of html req] main [of html "[]"] empty by simp
qed

theorem permission_check_allows_iff_overlap_witness:
  "permission_check False [(''groups'', [''administrators''])]
       [''groups'' \<mapsto> [''administrators'', ''auditors'']] = Inr CallEndpoint
   \<and> permission_check False [(''actions'', [''delete''])]
       [''actions'' \<mapsto> [''read''], ''users'' \<mapsto> [''bob'']]
       = Inl (HTTPException 403 (PermissionsRequired [(''actions'', [''delete''])]))
   \<and> permission_check True [] [''users'' \<mapsto> [''bob'']] = Inr (HTMLResponse 403)"
proof -
  have "permission_check False [(''groups'', [''administrators''])]
       [''groups'' \<mapsto> [''administrators'', ''auditors'']] = Inr CallEndpoint"
    using permission_check_allows_iff_overlap
      [of False "[(''groups'', [''administrators''])]" "[''groups'' \<mapsto> [''administrators'', ''auditors'']]"]
    by simp
  then show ?thesis
    by (simp add: permission_check_def)
qed

section \<open>Properties of password validation\<close>

lemma ex_users_simps:
  "Users_get (Users ex_world) ''alice'' = Some alice"
  "Users_get (Users ex_world) ''bob'' = Some bob"
  "Users_get (Users ex_world) ''svc'' = Some svc"
  by (simp_all add: Users_get_def ex_world_def alice_def bob_def svc_def)

text \<open>
  What \<open>validate_user_pw\<close> does when the comparison raises, for an existing account
  that is not a service account: a \<open>ValueError\<close> leaves through the inner handler and
  reaches \<^verbatim>\<open>return user\<close>; any other exception leaves through the outer handler
  and reaches \<^verbatim>\<open>return None\<close>.
\<close>

lemma validate_user_pw_on_exception:
  assumes "Users_get (Users w) name = Some user"
      and "account_type user \<noteq> ''service''"
      and "checkpw pw (password user) = Inl e"
  shows "validate_user_pw checkpw w name pw = (if is_ValueError e then Inr (Some user) else Inr None)"
  using assms by (simp add: validate_user_pw_def is_password_valid_def)

text \<open>
  Claim C1, at the input where the code departs from it. \<open>alice\<close>'s stored hash is not
  a bcrypt hash, so the comparison raises \<open>ValueError\<close>; \<open>validate_user_pw\<close> then
  returns the user object, for a password that was never checked, instead of \<open>None\<close>.
\<close>

theorem validate_user_pw_ValueError_returns_user:
  "is_password_valid ex_checkpw (password alice) ''wrong password'' = Inl (ValueError ''Invalid salt'')
   \<and> validate_user_pw ex_checkpw ex_world ''alice'' ''wrong password'' = Inr (Some alice)"
  by (simp add: validate_user_pw_def ex_users_simps is_password_valid_def ex_checkpw_def alice_def)

text \<open>
  Claim C2 as stated fails on a service account: the call raises
  \<open>HTTPException 401\<close> and does not return \<open>None\<close>.
\<close>

theorem validate_user_pw_service_counterexample:
  "Users_get (Users ex_world) ''svc'' = Some svc
   \<and> account_type svc = ''service''
   \<and> validate_user_pw ex_checkpw ex_world ''svc'' ''key''
        = Inl (HTTPException 401 (Text ''unable to login with service accounts''))
   \<and> validate_user_pw ex_checkpw ex_world ''svc'' ''key'' \<noteq> Inr None"
  by (simp add: validate_user_pw_def ex_users_simps) (simp add: svc_def)

text \<open>
  Claim C2, amended. For an existing account and every password: if the account type is
  \<open>service\<close>, \<open>validate_user_pw\<close> raises \<open>HTTPException 401\<close> with the detail
  "unable to login with service accounts" (it never returns the user); if the account is
  not a service account and the hash comparison returns false for the password, it
  returns \<open>None\<close>. Nothing is said here of a password on which the comparison raises.
\<close>

theorem validate_user_pw_service_raises:
  assumes "Users_get (Users w) name = Some user"
  shows "(account_type user = ''service'' \<longrightarrow>
            validate_user_pw checkpw w name pw
              = Inl (HTTPException 401 (Text ''unable to login with service accounts'')))
       \<and> (account_type user \<noteq> ''service'' \<and> checkpw pw (password user) = Inr False \<longrightarrow>
            validate_user_pw checkpw w name pw = Inr None)"
  using assms by (simp add: validate_user_pw_def is_password_valid_def)

theorem validate_user_pw_service_raises_witness:
  "validate_user_pw ex_checkpw ex_world ''svc'' ''key''
     = Inl (HTTPException 401 (Text ''unable to login with service accounts''))
   \<and> validate_user_pw ex_checkpw ex_world ''bob'' ''guess'' = Inr None"
proof -
  have svc: "account_type svc = ''service''" by (simp add: svc_def)
  have bob: "account_type bob \<noteq> ''service'' \<and> ex_checkpw ''guess'' (password bob) = Inr False"
    by (simp add: bob_def ex_checkpw_def)
  show ?thesis
    using validate_user_pw_service_raises [OF ex_users_simps(3), of ex_checkpw "''key''"]
      validate_user_pw_service_raises [OF ex_users_simps(2), of ex_checkpw "''guess''"] svc bob
    by simp
qed

section \<open>Properties of permission resolution\<close>

text \<open>The snapshot's \<open>users\<close> list is the user's own name.\<close>

lemma get_user_permissions_users: "get_user_permissions user ''users'' = Some [username user]"
  by (simp add: get_user_permissions_def)

text \<open>
  Claim C3, at the input where the code departs from it. \<open>alice\<close> is in \<open>G1\<close> (role
  \<open>R1\<close> with actions \<open>A1\<close>, \<open>A2\<close>) and in \<open>G2\<close> (role \<open>R2\<close> with action \<open>A2\<close>).
  The membership test compares the action object with the names collected so far, finds
  no equal one, and \<open>A2\<close> is appended twice.
\<close>

theorem get_user_permissions_duplicate_action:
  "get_user_permissions alice ''actions'' = Some [''A1'', ''A2'', ''A2'']
   \<and> \<not> distinct [''A1'', ''A2'', ''A2'']"
  by (simp add: get_user_permissions_def alice_def G1_def G2_def R1_def R2_def A1_def A2_def
      init_list_def append_if_absent_def py_in_def)

section \<open>Properties of token issuance\<close>

text \<open>
  A successful call, spelled out: the three environment variables and a first user name
  exist; the clock is read three times, for the record's expiration, for the record's
  \<open>issued\<close>, and by the signer for the token's \<open>exp\<close>.
\<close>

lemma issue_token_success:
  assumes "issue_token privkey uuid w perms minutes hours days = (Inr signed, w')"
  shows "\<exists>issuer subject audience user rest.
           environ w ''ISSUER'' = Some issuer \<and> environ w ''SUBJECT'' = Some subject
         \<and> environ w ''AUDIENCE'' = Some audience \<and> perms ''users'' = Some (user # rest)
         \<and> signed = \<lparr>jwt_claims = \<lparr>iss = issuer, sub = subject, aud = audience,
                                      payload_token_id = uuid, payload_permissions = perms\<rparr>,
                       jwt_exp = clock w (ticks w + 2) + timedelta minutes hours days,
                       jwt_key = privkey\<rparr>
         \<and> w' = w\<lparr>ticks := ticks w + 3,
                   Tokens := Tokens w @
                     [\<lparr>token_id = uuid, token_username = user, issued = clock w (ticks w + 1),
                       expiration = clock w (ticks w) + timedelta minutes hours days,
                       token = perms\<rparr>]\<rparr>"
  using assms
  by (auto simp: issue_token_def environ_get_def now_def generate_jwt_def Tokens_create_def Let_def
      split: sum.splits option.splits list.splits)

text \<open>
  Claim C5, amended. After a successful \<open>issue_token\<close> the tracking store has one new
  record, and that record and the signed token carry the same \<open>token_id\<close>. Both
  expirations are a clock reading plus the same lifetime, but not the same reading: the
  record's is the reading taken at the start of the call, the token's is the reading the
  signer takes after the record is stored. They are equal exactly when those two readings
  are equal.
\<close>

theorem issue_token_same_id_separate_clock_readings:
  assumes "issue_token privkey uuid w perms minutes hours days = (Inr signed, w')"
  shows "\<exists>row. Tokens w' = Tokens w @ [row]
           \<and> token_id row = uuid
           \<and> payload_token_id (jwt_claims signed) = uuid
           \<and> expiration row = clock w (ticks w) + timedelta minutes hours days
           \<and> jwt_exp signed = clock w (ticks w + 2) + timedelta minutes hours days"
  using issue_token_success [OF assms] by auto

lemma bob_simps: "username bob = ''bob''"
  by (simp add: bob_def)

lemma ex_issue:
  "issue_token ex_key ''u-1'' ex_world (get_user_permissions bob) 60 0 0 =
     (Inr \<lparr>jwt_claims = \<lparr>iss = ''easyauth'', sub = ''users'', aud = ''services'',
                          payload_token_id = ''u-1'',
                          payload_permissions = get_user_permissions bob\<rparr>,
           jwt_exp = 4602, jwt_key = ex_key\<rparr>,
      ex_world\<lparr>ticks := 3,
        Tokens := [tok1, tok2, tok3,
                   \<lparr>token_id = ''u-1'', token_username = ''bob'', issued = 1001,
                    expiration = 4600, token = get_user_permissions bob\<rparr>]\<rparr>)"
  by (simp add: issue_token_def environ_get_def now_def generate_jwt_def Tokens_create_def
      get_user_permissions_users timedelta_def ex_world_def Let_def numeral_3_eq_3 bob_simps)

text \<open>
  Claim C5 as stated fails when the clock moves during the call: with a clock that
  advances one second per reading, the token expires at 4602 and the record stored for
  it (the last one) at 4600.
\<close>

theorem issue_token_expiration_counterexample:
  "map_sum id jwt_exp (fst (issue_token ex_key ''u-1'' ex_world (get_user_permissions bob) 60 0 0))
     = Inr 4602
   \<and> map expiration (Tokens (snd (issue_token ex_key ''u-1'' ex_world (get_user_permissions bob) 60 0 0)))
     = [900, 1000, 1500, 4600]
   \<and> map token_id (Tokens (snd (issue_token ex_key ''u-1'' ex_world (get_user_permissions bob) 60 0 0)))
     = [''t1'', ''t2'', ''t3'', ''u-1'']"
  by (simp add: ex_issue ex_tokens_simps)

theorem issue_token_same_id_separate_clock_readings_witness:
  "token_id (last (Tokens (snd (issue_token ex_key ''u-1'' ex_world (get_user_permissions bob) 60 0 0))))
     = ''u-1''
   \<and> expiration (last (Tokens (snd (issue_token ex_key ''u-1'' ex_world (get_user_permissions bob) 60 0 0))))
     = 4600
   \<and> map_sum id (\<lambda>signed. (payload_token_id (jwt_claims signed), jwt_exp signed))
         (fst (issue_token ex_key ''u-1'' ex_world (get_user_permissions bob) 60 0 0))
     = Inr (''u-1'', 4602)"
proof -
  let ?r = "issue_token ex_key ''u-1'' ex_world (get_user_permissions bob) 60 0 0"
  let ?signed = "\<lparr>jwt_claims = \<lparr>iss = ''easyauth'', sub = ''users'', aud = ''services'',
                     payload_token_id = ''u-1'',
                     payload_permissions = get_user_permissions bob\<rparr>,
                   jwt_exp = 4602, jwt_key = ex_key\<rparr>"
  have run: "?r = (Inr ?signed, snd ?r)"
    by (simp add: ex_issue)
  have t: "clock ex_world (ticks ex_world) + timedelta 60 0 0 = 4600"
    by (simp add: ex_world_def timedelta_def)
  obtain row where row: "Tokens (snd ?r) = Tokens ex_world @ [row]" "token_id row = ''u-1''"
      "expiration row = 4600"
    using issue_token_same_id_separate_clock_readings [OF run] unfolding t by blast
  have "fst ?r = Inr ?signed"
    by (simp add: ex_issue)
  then show ?thesis
    using row by simp
qed

text \<open>
  Claim C10. When the permissions have no \<open>users\<close> entry, or an empty one,
  \<open>issue_token\<close> raises: its result is an exception, so no token is signed or
  returned, and the tracking store is as it was before the call.
\<close>

theorem issue_token_requires_users:
  assumes "perms ''users'' = None \<or> perms ''users'' = Some []"
  shows "isl (fst (issue_token privkey uuid w perms minutes hours days))
       \<and> Tokens (snd (issue_token privkey uuid w perms minutes hours days)) = Tokens w"
  using assms
  by (auto simp: issue_token_def environ_get_def now_def Let_def split: sum.splits option.splits)

theorem issue_token_requires_users_witness:
  "fst (issue_token ex_key ''u-1'' ex_world Map.empty 60 0 0) = Inl (KeyError ''users'')
   \<and> fst (issue_token ex_key ''u-1'' ex_world [''users'' \<mapsto> []] 60 0 0) = Inl IndexError
   \<and> Tokens (snd (issue_token ex_key ''u-1'' ex_world [''users'' \<mapsto> []] 60 0 0)) = Tokens ex_world"
proof -
  have a: "fst (issue_token ex_key ''u-1'' ex_world Map.empty 60 0 0) = Inl (KeyError ''users'')"
    by (simp add: issue_token_def environ_get_def now_def ex_world_def)
  have b: "fst (issue_token ex_key ''u-1'' ex_world [''users'' \<mapsto> []] 60 0 0) = Inl IndexError"
    by (simp add: issue_token_def environ_get_def now_def ex_world_def)
  have c: "[''users'' \<mapsto> []] ''users'' = None \<or> [''users'' \<mapsto> ([]::string list)] ''users'' = Some []"
    by simp
  show ?thesis
    using a b c
      issue_token_requires_users
        [where perms = "[''users'' \<mapsto> []]" and privkey = ex_key and uuid = "''u-1''"
           and w = ex_world and minutes = 60 and hours = 0 and days = 0]
    by simp
qed

section \<open>Properties of Google federation\<close>

lemma google_verified_email_rejects:
  assumes "verify code cid = Inr info"
      and "claim_email info = None \<or> claim_email_verified info \<noteq> Some True"
  shows "google_verified_email verify code cid
           = Inl (HTTPException 400 (Text ''Unable to validate social login''))"
  using assms
  by (auto simp: google_verified_email_def google_try_body_def split: option.splits sum.splits)

text \<open>
  Claim C9. Let a Google provider be configured and the call reach the verifier with an
  authorization code, and let the verifier return claims in which \<open>email\<close> is absent or
  \<open>email_verified\<close> is not true. Then \<open>generate_google_oauth_token\<close> raises
  \<open>HTTPException 400\<close> with the detail "Unable to validate social login", and the
  state is the one before the call: no user is registered and no token is recorded or
  returned.
\<close>

theorem google_unverified_email_rejected:
  assumes "OauthConfig_filter_provider (OauthConfig w) ''google'' = oauth_config # others"
      and "google_auth_code req auth_code = Inr code"
      and "verify code (client_id oauth_config) = Inr info"
      and "claim_email info = None \<or> claim_email_verified info \<noteq> Some True"
  shows "generate_google_oauth_token verify register_user privkey uuid w req auth_code
           = (Inl (HTTPException 400 (Text ''Unable to validate social login'')), w)"
  using assms(1,2)
    google_verified_email_rejects
      [where verify = verify and code = code and cid = "client_id oauth_config" and info = info,
       OF assms(3,4)]
  by (simp add: generate_google_oauth_token_def)

theorem google_unverified_email_rejected_witness:
  "generate_google_oauth_token ex_verify ex_register ex_key ''u-1'' ex_world None (Some ''unverified'')
     = (Inl (HTTPException 400 (Text ''Unable to validate social login'')), ex_world)
   \<and> generate_google_oauth_token ex_verify ex_register ex_key ''u-1'' ex_world None (Some ''no-email'')
     = (Inl (HTTPException 400 (Text ''Unable to validate social login'')), ex_world)"
proof -
  have cfg: "OauthConfig_filter_provider (OauthConfig ex_world) ''google'' = google_config # []"
    by (simp add: OauthConfig_filter_provider_def ex_world_def google_config_def)
  have cid: "client_id google_config = ''client-1''"
    by (simp add: google_config_def)
  have code1: "google_auth_code None (Some ''unverified'') = Inr ''unverified''"
    by (simp add: google_auth_code_def)
  have code2: "google_auth_code None (Some ''no-email'') = Inr ''no-email''"
    by (simp add: google_auth_code_def)
  let ?i1 = "\<lparr>claim_email = Some ''mallory@example.org'', claim_email_verified = Some False,
                claim_given_name = Some ''Mallory'', claim_family_name = Some ''M''\<rparr>"
  let ?i2 = "\<lparr>claim_email = None, claim_email_verified = Some True,
                claim_given_name = Some ''Nobody'', claim_family_name = Some ''N''\<rparr>"
  have v1: "ex_verify ''unverified'' (client_id google_config) = Inr ?i1"
    by (simp add: ex_verify_def cid)
  have v2: "ex_verify ''no-email'' (client_id google_config) = Inr ?i2"
    by (simp add: ex_verify_def cid)
  have b1: "claim_email ?i1 = None \<or> claim_email_verified ?i1 \<noteq> Some True" by simp
  have b2: "claim_email ?i2 = None \<or> claim_email_verified ?i2 \<noteq> Some True" by simp
  show ?thesis
    using
      google_unverified_email_rejected
        [where verify = ex_verify and info = ?i1 and register_user = ex_register
           and privkey = ex_key and uuid = "''u-1''", OF cfg code1 v1 b1]
      google_unverified_email_rejected
        [where verify = ex_verify and info = ?i2 and register_user = ex_register
           and privkey = ex_key and uuid = "''u-1''", OF cfg code2 v2 b2]
    by simp
qed

section \<open>Properties of key startup\<close>

text \<open>
  When loading the private key fails, for whatever reason, and the key file can be
  written, the handler generates a key and writes it over the file.
\<close>

lemma private_key_step_regenerates:
  assumes "load_private_key lib fs key_path = Inl e"
      and "key_path @ ''.key'' \<notin> no_write fs"
  shows "private_key_step lib rnd fs key_path =
           (Inr (generate lib (generate_random_string rnd 56) ''RSA'' 2048),
            fs\<lparr>files := (files fs)(key_path @ ''.key'' \<mapsto>
                   export_private lib (generate lib (generate_random_string rnd 56) ''RSA'' 2048))\<rparr>)"
  using assms by (simp add: private_key_step_def open_write_def Let_def)

text \<open>The public key step, case by case.\<close>

lemma public_key_step_result:
  "public_key_step lib fs key_path privkey =
     (if files fs (key_path @ ''.pub'') \<noteq> None \<and> key_path @ ''.pub'' \<notin> no_read fs then Inr fs
      else if key_path @ ''.pub'' \<in> no_write fs then Inl PermissionError
      else Inr (fs\<lparr>files := (files fs)(key_path @ ''.pub'' \<mapsto> export_public lib privkey)\<rparr>))"
  by (auto simp: public_key_step_def open_read_def open_write_def split: option.splits)

text \<open>
  Claim C8, amended. Let \<open>KEY_NAME\<close> be \<open>name\<close> and \<open>KEY_PATH\<close> an existing
  directory \<open>dir\<close>, and let \<open>dir/name.key\<close> exist but be unreadable or hold text that
  \<open>from_json\<close> rejects. Then \<open>key_setup\<close> does not fail for that reason and does not
  keep the old key: provided the marker file \<open>dir/name\<close> exists or can be created and
  \<open>dir/name.key\<close> can be written, it writes the private export of a freshly generated
  RSA key over \<open>dir/name.key\<close>. It then returns that key when \<open>dir/name.pub\<close> exists
  and can be read, or can be written; otherwise it raises the error of the refused
  \<open>.pub\<close> write, the key file being replaced already.
\<close>

theorem key_setup_replaces_unloadable_key:
  assumes "env ''KEY_NAME'' = Some name"
      and "env ''KEY_PATH'' = Some dir"
      and "path_exists fs dir"
      and "files fs (dir @ ''/'' @ name @ ''.key'') = Some content"
      and "dir @ ''/'' @ name @ ''.key'' \<in> no_read fs \<or> isl (from_json lib (readline content))"
      and "path_exists fs (dir @ ''/'' @ name) \<or> dir @ ''/'' @ name \<notin> no_write fs"
      and "dir @ ''/'' @ name @ ''.key'' \<notin> no_write fs"
  shows "files (snd (key_setup lib rnd env fs)) (dir @ ''/'' @ name @ ''.key'')
           = Some (export_private lib (generate lib (generate_random_string rnd 56) ''RSA'' 2048))
       \<and> fst (key_setup lib rnd env fs) =
           (if (files fs (dir @ ''/'' @ name @ ''.pub'') \<noteq> None
                  \<and> dir @ ''/'' @ name @ ''.pub'' \<notin> no_read fs)
               \<or> dir @ ''/'' @ name @ ''.pub'' \<notin> no_write fs
            then Inr (generate lib (generate_random_string rnd 56) ''RSA'' 2048)
            else Inl PermissionError)"
proof -
  let ?p = "dir @ ''/'' @ name"
  let ?k = "generate lib (generate_random_string rnd 56) ''RSA'' 2048"
  define fs2 where "fs2 = (if path_exists fs ?p then fs else fs\<lparr>files := (files fs)(?p \<mapsto> [])\<rparr>)"
  let ?fs3 = "fs2\<lparr>files := (files fs2)(?p @ ''.key'' \<mapsto> export_private lib ?k)\<rparr>"
  have dir: "dir \<noteq> []"
    using assms(3) by (simp add: path_exists_def)
  have marker: "(if \<not> path_exists fs ?p then open_write fs ?p [] else Inr fs) = Inr fs2"
    using assms(6) by (auto simp: fs2_def open_write_def)
  have same: "files fs2 (?p @ ''.key'') = Some content" "files fs2 (?p @ ''.pub'') = files fs (?p @ ''.pub'')"
    "no_read fs2 = no_read fs" "no_write fs2 = no_write fs"
    using assms(4) by (simp_all add: fs2_def)
  have "\<exists>e. load_private_key lib fs2 ?p = Inl e"
    using same(1,3) assms(5) by (auto simp: load_private_key_def open_read_def isl_def)
  then obtain e where "load_private_key lib fs2 ?p = Inl e" ..
  then have priv: "private_key_step lib rnd fs2 ?p = (Inr ?k, ?fs3)"
    using assms(7) same(4) private_key_step_regenerates [of lib fs2 ?p e rnd] by simp
  have run: "key_setup lib rnd env fs =
               (case public_key_step lib ?fs3 ?p ?k of
                  Inl e \<Rightarrow> (Inl e, ?fs3) | Inr fs4 \<Rightarrow> (Inr ?k, fs4))"
    by (simp only: key_setup_def Let_def assms(1,2,3) dir option.case sum.case prod.case
        simp_thms if_True if_False marker priv)
  show ?thesis
    unfolding run public_key_step_result
    using same(2-4) by auto
qed

lemma damaged_fs_simps:
  "files damaged_fs ''keys/easyauth.key'' = Some ''garbage''"
  "files damaged_fs ''keys/easyauth.pub'' = Some ''public:old-material''"
  "files damaged_fs ''keys/easyauth'' = Some []"
  "dirs damaged_fs = {''keys''}" "no_read damaged_fs = {}" "no_write damaged_fs = {}"
  "key_env ''KEY_NAME'' = Some ''easyauth''" "key_env ''KEY_PATH'' = Some ''keys''"
  by (simp_all add: damaged_fs_def key_env_def)

lemma ex_jwcrypto_simps:
  "from_json ex_jwcrypto ''garbage'' = Inl (ValueError ''cannot parse key'')"
  "export_private ex_jwcrypto (JWK k t n m) = ''private:'' @ m"
  "export_public ex_jwcrypto (JWK k t n m) = ''public:'' @ m"
  "generate ex_jwcrypto k t n = JWK k t n ''fresh-material''"
  by (simp_all add: ex_jwcrypto_def)

text \<open>
  Claim C8 as stated fails on a damaged key file: \<open>keys/easyauth.key\<close> exists and
  holds text that is no key; \<open>key_setup\<close> returns normally with a new key and the file
  holds the new key afterwards, while \<open>keys/easyauth.pub\<close> is left as it was.
\<close>

theorem key_setup_damaged_key_counterexample:
  "files damaged_fs ''keys/easyauth.key'' = Some ''garbage''
   \<and> from_json ex_jwcrypto (readline ''garbage'') = Inl (ValueError ''cannot parse key'')
   \<and> fst (key_setup ex_jwcrypto ex_rnd key_env damaged_fs)
       = Inr (JWK (generate_random_string ex_rnd 56) ''RSA'' 2048 ''fresh-material'')
   \<and> files (snd (key_setup ex_jwcrypto ex_rnd key_env damaged_fs)) ''keys/easyauth.key''
       = Some ''private:fresh-material''
   \<and> files (snd (key_setup ex_jwcrypto ex_rnd key_env damaged_fs)) ''keys/easyauth.pub''
       = Some ''public:old-material''"
  by (simp add: key_setup_def path_exists_def private_key_step_def load_private_key_def
      public_key_step_def open_read_def open_write_def damaged_fs_simps ex_jwcrypto_simps Let_def)

lemma locked_pub_fs_simps:
  "files locked_pub_fs ''keys/easyauth.key'' = Some ''garbage''"
  "files locked_pub_fs ''keys/easyauth.pub'' = None"
  "files locked_pub_fs ''keys/easyauth'' = Some []"
  "dirs locked_pub_fs = {''keys''}" "no_read locked_pub_fs = {}"
  "no_write locked_pub_fs = {''keys/easyauth.pub''}"
  by (simp_all add: locked_pub_fs_def)

theorem key_setup_replaces_unloadable_key_witness:
  "fst (key_setup ex_jwcrypto ex_rnd key_env damaged_fs)
     = Inr (JWK (generate_random_string ex_rnd 56) ''RSA'' 2048 ''fresh-material'')
   \<and> files (snd (key_setup ex_jwcrypto ex_rnd key_env damaged_fs)) ''keys/easyauth.key''
     = Some ''private:fresh-material''
   \<and> fst (key_setup ex_jwcrypto ex_rnd key_env locked_pub_fs) = Inl PermissionError
   \<and> files (snd (key_setup ex_jwcrypto ex_rnd key_env locked_pub_fs)) ''keys/easyauth.key''
     = Some ''private:fresh-material''"
proof -
  have bad: "isl (from_json ex_jwcrypto (readline ''garbage''))"
    by (simp add: ex_jwcrypto_simps)
  have d3: "path_exists damaged_fs ''keys''"
    by (simp add: path_exists_def damaged_fs_simps)
  have d4: "files damaged_fs (''keys'' @ ''/'' @ ''easyauth'' @ ''.key'') = Some ''garbage''"
    by (simp add: damaged_fs_simps)
  have d5: "''keys'' @ ''/'' @ ''easyauth'' @ ''.key'' \<in> no_read damaged_fs
            \<or> isl (from_json ex_jwcrypto (readline ''garbage''))"
    using bad by simp
  have d6: "path_exists damaged_fs (''keys'' @ ''/'' @ ''easyauth'')
            \<or> ''keys'' @ ''/'' @ ''easyauth'' \<notin> no_write damaged_fs"
    by (simp add: path_exists_def damaged_fs_simps)
  have d7: "''keys'' @ ''/'' @ ''easyauth'' @ ''.key'' \<notin> no_write damaged_fs"
    by (simp add: damaged_fs_simps)
  have l3: "path_exists locked_pub_fs ''keys''"
    by (simp add: path_exists_def locked_pub_fs_simps)
  have l4: "files locked_pub_fs (''keys'' @ ''/'' @ ''easyauth'' @ ''.key'') = Some ''garbage''"
    by (simp add: locked_pub_fs_simps)
  have l5: "''keys'' @ ''/'' @ ''easyauth'' @ ''.key'' \<in> no_read locked_pub_fs
            \<or> isl (from_json ex_jwcrypto (readline ''garbage''))"
    using bad by simp
  have l6: "path_exists locked_pub_fs (''keys'' @ ''/'' @ ''easyauth'')
            \<or> ''keys'' @ ''/'' @ ''easyauth'' \<notin> no_write locked_pub_fs"
    by (simp add: path_exists_def locked_pub_fs_simps)
  have l7: "''keys'' @ ''/'' @ ''easyauth'' @ ''.key'' \<notin> no_write locked_pub_fs"
    by (simp add: locked_pub_fs_simps)
  show ?thesis
    using key_setup_replaces_unloadable_key
        [where lib = ex_jwcrypto and rnd = ex_rnd, OF damaged_fs_simps(7,8) d3 d4 d5 d6 d7]
      key_setup_replaces_unloadable_key
        [where lib = ex_jwcrypto and rnd = ex_rnd, OF damaged_fs_simps(7,8) l3 l4 l5 l6 l7]
    by (simp add: ex_jwcrypto_simps damaged_fs_simps locked_pub_fs_simps)
qed

end
